theory Spec2Isabelle
  imports Main "HOL-Library.Word"
begin

unbundle bit_operations_syntax

section \<open>Machine integers and Win32 value types\<close>

text \<open>
  \<open>wchar_t\<close> is a 16-bit code unit.  \<open>SHORT\<close> and \<open>int\<close> values are kept as
  \<open>int\<close>; every place where Terminal.cpp stores a wider value into a \<open>SHORT\<close>
  lvalue (\<open>Y++\<close>, \<open>Y--\<close>, \<open>X += ...\<close>, \<open>X = Width() - 1\<close>) is written with
  \<open>to_short\<close>, the two's complement truncation.  The checked conversions the source
  calls (\<open>gsl::narrow<short>\<close>, \<open>ShortAdd\<close>, \<open>ShortSub\<close>) fail instead of wrapping.
  The 32-bit \<open>int\<close> expressions of the source combine two or three \<open>SHORT\<close> values, or
  subtract a value from 0 up to \<open>INT_MAX\<close> from a viewport top that is not negative, and
  stay inside 32 bits; they are written on \<open>int\<close> as they stand.
\<close>

type_synonym wchar_t = "16 word"

definition in_short :: "int \<Rightarrow> bool" where
  "in_short n = (- 32768 \<le> n \<and> n \<le> 32767)"

definition to_short :: "int \<Rightarrow> int" where
  "to_short n = (n + 32768) mod 65536 - 32768"

datatype error =
    NarrowingError    \<comment> \<open>\<open>gsl::narrow\<close> threw\<close>
  | IntsafeOverflow   \<comment> \<open>\<open>THROW_IF_FAILED\<close> on \<open>ShortAdd\<close> / \<open>ShortSub\<close>\<close>

definition narrow_short :: "int \<Rightarrow> error + int" where
  "narrow_short n = (if in_short n then Inr n else Inl NarrowingError)"

definition ShortAdd :: "int \<Rightarrow> int \<Rightarrow> error + int" where
  "ShortAdd a b = (if in_short (a + b) then Inr (a + b) else Inl IntsafeOverflow)"

definition ShortSub :: "int \<Rightarrow> int \<Rightarrow> error + int" where
  "ShortSub a b = (if in_short (a - b) then Inr (a - b) else Inl IntsafeOverflow)"

record COORD =
  X :: int
  Y :: int

record SMALL_RECT =
  Left :: int
  Top :: int
  Right :: int
  Bottom :: int

text \<open>\<open>HRESULT\<close>: a signed code, \<open>FAILED(hr)\<close> is \<open>hr < 0\<close>.\<close>

type_synonym HRESULT = int

definition S_OK :: HRESULT where "S_OK = 0"
definition S_FALSE :: HRESULT where "S_FALSE = 1"
definition E_OUTOFMEMORY :: HRESULT where "E_OUTOFMEMORY = - 2147024882"
definition FAILED :: "HRESULT \<Rightarrow> bool" where "FAILED hr = (hr < 0)"

definition UNICODE_BACKSPACE :: wchar_t where "UNICODE_BACKSPACE = 0x08"
definition UNICODE_LINEFEED :: wchar_t where "UNICODE_LINEFEED = 0x0A"
definition UNICODE_CARRIAGERETURN :: wchar_t where "UNICODE_CARRIAGERETURN = 0x0D"

section \<open>Viewport\<close>

text \<open>
  Modelled from the spec: the \<open>Viewport\<close> class is declared outside Terminal.cpp.  The
  spec describes the live viewport as a rectangle given by its top row, its width and its
  height; the origin column is kept as well, because \<open>FromDimensions\<close> receives it.
\<close>

record Viewport =
  vpLeft :: int
  vpTop :: int
  vpWidth :: int
  vpHeight :: int

definition Viewport_Empty :: Viewport where
  "Viewport_Empty = \<lparr>vpLeft = 0, vpTop = 0, vpWidth = 0, vpHeight = 0\<rparr>"

definition FromDimensions :: "COORD \<Rightarrow> COORD \<Rightarrow> Viewport" where
  "FromDimensions origin dimensions =
     \<lparr>vpLeft = X origin, vpTop = Y origin, vpWidth = X dimensions, vpHeight = Y dimensions\<rparr>"

definition Dimensions :: "Viewport \<Rightarrow> COORD" where
  "Dimensions v = \<lparr>X = vpWidth v, Y = vpHeight v\<rparr>"

definition BottomInclusive :: "Viewport \<Rightarrow> int" where
  "BottomInclusive v = vpTop v + vpHeight v - 1"

definition BottomExclusive :: "Viewport \<Rightarrow> int" where
  "BottomExclusive v = vpTop v + vpHeight v"

definition RightInclusive :: "Viewport \<Rightarrow> int" where
  "RightInclusive v = vpLeft v + vpWidth v - 1"

section \<open>The external text buffer and the terminal state\<close>

text \<open>
  Modelled from the spec: \<open>TextBuffer\<close> is an external collaborator that exposes a cursor
  position, its size, a circular rotation and a cell write.  Of the buffer only what
  Terminal.cpp reads back is kept: the cursor (\<open>SetPosition\<close> stores, \<open>GetPosition\<close>
  reads), the size, and the number of \<open>IncrementCircularBuffer\<close> calls made so far.
\<close>

record TextBuffer =
  cursor :: COORD
  bufSize :: Viewport
  rotations :: nat

definition TextBuffer_new :: "COORD \<Rightarrow> TextBuffer" where
  "TextBuffer_new bufferSize =
     \<lparr>cursor = \<lparr>X = 0, Y = 0\<rparr>,
      bufSize = FromDimensions \<lparr>X = 0, Y = 0\<rparr> bufferSize,
      rotations = 0\<rparr>"

definition IncrementCircularBuffer :: "TextBuffer \<Rightarrow> TextBuffer" where
  "IncrementCircularBuffer b = b\<lparr>rotations := Suc (rotations b)\<rparr>"

text \<open>
  The cell write \<open>_buffer->Write(it)\<close> followed by \<open>end.GetCellDistance(it)\<close>: given the
  buffer and the one or two code units handed over, the number of cells consumed.  It is
  external, so the writer takes it as a parameter.
\<close>

type_synonym cell_writer = "TextBuffer \<Rightarrow> wchar_t list \<Rightarrow> int"

text \<open>
  \<open>_buffer->ResizeTraditional(bufferSize)\<close>: external; it yields an \<open>HRESULT\<close> and the
  buffer as it is afterwards.
\<close>

type_synonym buffer_resizer = "COORD \<Rightarrow> TextBuffer \<Rightarrow> HRESULT \<times> TextBuffer"

text \<open>
  The members of \<open>Terminal\<close>.  \<open>skipNewline\<close> is the function-local \<open>static bool\<close> of
  \<open>_WriteBuffer\<close>, which outlives every call and is one variable for the whole process;
  the field holds its value, and the runs considered are those of one terminal, with no
  write to another terminal in between.  \<open>pfnScrollPositionChanged\<close> tells whether a
  scroll callback is registered; \<open>scrollEvents\<close> lists the calls made to it, oldest
  first, as (top, height, bottom); \<open>redrawAll\<close> counts \<open>TriggerRedrawAll\<close> requests sent
  to the render target.
\<close>

record Terminal =
  mutableViewport :: Viewport
  scrollbackLines :: int
  scrollOffset :: int
  snapOnInput :: bool
  selectionAnchor :: COORD
  endSelectionPosition :: COORD
  boxSelection :: bool
  renderSelection :: bool
  title :: "wchar_t list"
  buffer :: TextBuffer
  skipNewline :: bool
  pfnScrollPositionChanged :: bool
  scrollEvents :: "(int \<times> int \<times> int) list"
  redrawAll :: nat

section \<open>Construction\<close>

text \<open>
  The constructor followed by \<open>Create\<close>.  The constructor does not touch the static
  \<open>skipNewline\<close> of \<open>_WriteBuffer\<close>, which all \<open>Terminal\<close> objects of the process share:
  a new terminal finds the value the process has at that moment, which is the parameter
  here, and \<open>false\<close> for the first terminal of a process.  \<open>_buffer\<close> is null until
  \<open>Create\<close> allocates it, and every other member function dereferences it; the buffer of
  size 0 by 0 below only fills the field until then, and every run considered starts
  after \<open>Create\<close>.  A new \<open>TextBuffer\<close> has its cursor at the origin.  No callback is
  registered yet.
\<close>

definition Terminal_new :: "bool \<Rightarrow> Terminal" where
  "Terminal_new staticSkipNewline =
     \<lparr>mutableViewport = Viewport_Empty,
      scrollbackLines = 0,
      scrollOffset = 0,
      snapOnInput = True,
      selectionAnchor = \<lparr>X = 0, Y = 0\<rparr>,
      endSelectionPosition = \<lparr>X = 0, Y = 0\<rparr>,
      boxSelection = False,
      renderSelection = False,
      title = [],
      buffer = TextBuffer_new \<lparr>X = 0, Y = 0\<rparr>,
      skipNewline = staticSkipNewline,
      pfnScrollPositionChanged = False,
      scrollEvents = [],
      redrawAll = 0\<rparr>"

definition Create :: "COORD \<Rightarrow> int \<Rightarrow> Terminal \<Rightarrow> Terminal" where
  "Create viewportSize scrollbackLines' t =
     (let bufferSize = \<lparr>X = X viewportSize, Y = to_short (Y viewportSize + scrollbackLines')\<rparr>
      in t\<lparr>mutableViewport := FromDimensions \<lparr>X = 0, Y = 0\<rparr> viewportSize,
           scrollbackLines := scrollbackLines',
           buffer := TextBuffer_new bufferSize\<rparr>)"

definition SetScrollPositionChangedCallback :: "bool \<Rightarrow> Terminal \<Rightarrow> Terminal" where
  "SetScrollPositionChangedCallback pfn t = t\<lparr>pfnScrollPositionChanged := pfn\<rparr>"

section \<open>Viewport and scroll offset\<close>

definition GetMutableViewport :: "Terminal \<Rightarrow> Viewport" where
  "GetMutableViewport t = mutableViewport t"

definition GetBufferHeight :: "Terminal \<Rightarrow> int" where
  "GetBufferHeight t = BottomExclusive (mutableViewport t)"

definition ViewStartIndex :: "Terminal \<Rightarrow> int" where
  "ViewStartIndex t = vpTop (mutableViewport t)"

definition VisibleStartIndex :: "Terminal \<Rightarrow> int" where
  "VisibleStartIndex t = max 0 (ViewStartIndex t - scrollOffset t)"

definition GetVisibleViewport :: "Terminal \<Rightarrow> error + Viewport" where
  "GetVisibleViewport t =
     (case narrow_short (VisibleStartIndex t) of
        Inl e \<Rightarrow> Inl e
      | Inr y \<Rightarrow> Inr (FromDimensions \<lparr>X = 0, Y = y\<rparr> (Dimensions (mutableViewport t))))"

definition NotifyScrollEvent :: "Terminal \<Rightarrow> error + Terminal" where
  "NotifyScrollEvent t =
     (if pfnScrollPositionChanged t then
        (case GetVisibleViewport t of
           Inl e \<Rightarrow> Inl e
         | Inr visible \<Rightarrow>
             Inr (t\<lparr>scrollEvents :=
                      scrollEvents t @ [(vpTop visible, vpHeight visible, GetBufferHeight t)]\<rparr>))
      else Inr t)"

definition UserScrollViewport :: "int \<Rightarrow> Terminal \<Rightarrow> Terminal" where
  "UserScrollViewport viewTop t =
     (let clampedNewTop = max 0 viewTop;
          realTop = ViewStartIndex t;
          newDelta = realTop - clampedNewTop
      in t\<lparr>scrollOffset := max 0 newDelta, redrawAll := Suc (redrawAll t)\<rparr>)"

definition GetScrollOffset :: "Terminal \<Rightarrow> int" where
  "GetScrollOffset t = VisibleStartIndex t"

text \<open>
  \<open>UserResize\<close> assigns the new viewport, then asks the buffer to resize, and returns the
  buffer's failure code from there (\<open>RETURN_IF_FAILED\<close>).  The function is \<open>noexcept\<close>:
  an exception out of the notification ends the process, which is the \<open>Inl\<close> result.
\<close>

definition UserResize :: "buffer_resizer \<Rightarrow> COORD \<Rightarrow> Terminal \<Rightarrow> error + (HRESULT \<times> Terminal)" where
  "UserResize ResizeTraditional viewportSize t =
     (let oldDimensions = Dimensions (mutableViewport t) in
      if viewportSize = oldDimensions then Inr (S_FALSE, t)
      else
        let t1 = t\<lparr>mutableViewport := FromDimensions \<lparr>X = 0, Y = 0\<rparr> viewportSize\<rparr>;
            bufferSize = \<lparr>X = X viewportSize,
                          Y = to_short (Y viewportSize + scrollbackLines t1)\<rparr>;
            r = ResizeTraditional bufferSize (buffer t1);
            t2 = t1\<lparr>buffer := snd r\<rparr>
        in if FAILED (fst r) then Inr (fst r, t2)
           else (case NotifyScrollEvent t2 of
                   Inl e \<Rightarrow> Inl e
                 | Inr t3 \<Rightarrow> Inr (S_OK, t3)))"



section \<open>The cursor-driven writer\<close>

text \<open>
  The inner loop of \<open>_WriteBuffer\<close>, \<open>for (dy = 0; dy < newRows; dy++)\<close>: each round
  rotates the buffer once and decrements the proposed row.
\<close>

fun CycleBuffer :: "nat \<Rightarrow> TextBuffer \<times> COORD \<Rightarrow> TextBuffer \<times> COORD" where
  "CycleBuffer 0 bp = bp"
| "CycleBuffer (Suc n) (b, p) =
     CycleBuffer n (IncrementCircularBuffer b, p\<lparr>Y := to_short (Y p - 1)\<rparr>)"

text \<open>
  The first part of the loop body, for a character that is not a suppressed line feed:
  the proposed cursor position and the index of the next character to read.  In the
  surrogate branch the index is a \<open>size_t\<close>: \<open>i += cellDistance - 1\<close> and then the
  loop's \<open>i++\<close> wrap modulo \<open>2 ^ 64\<close>.
\<close>

definition ProposeCursor ::
  "cell_writer \<Rightarrow> wchar_t list \<Rightarrow> nat \<Rightarrow> Terminal \<Rightarrow> error + (nat \<times> COORD)" where
  "ProposeCursor Write stringView i t =
     (let wch = stringView ! i;
          cursorPosBefore = cursor (buffer t);
          bufferSize = bufSize (buffer t);
          proposedCursorPosition = cursorPosBefore
      in if wch = UNICODE_LINEFEED then
           Inr (Suc i, proposedCursorPosition\<lparr>Y := to_short (Y proposedCursorPosition + 1)\<rparr>)
         else if wch = UNICODE_CARRIAGERETURN then
           Inr (Suc i, proposedCursorPosition\<lparr>X := 0\<rparr>)
         else if wch = UNICODE_BACKSPACE then
           (if X cursorPosBefore = 0 then
              Inr (Suc i, proposedCursorPosition
                     \<lparr>X := to_short (vpWidth bufferSize - 1),
                      Y := to_short (Y proposedCursorPosition - 1)\<rparr>)
            else
              Inr (Suc i, proposedCursorPosition\<lparr>X := to_short (X proposedCursorPosition - 1)\<rparr>))
         else if 0xD800 \<le> wch \<and> wch \<le> 0xDFFF then
           (let cellDistance = Write (buffer t) (take 2 (drop i stringView)) in
            case narrow_short cellDistance of
              Inl e \<Rightarrow> Inl e
            | Inr d \<Rightarrow>
                Inr (nat ((int i + cellDistance) mod 2 ^ 64),
                     proposedCursorPosition\<lparr>X := to_short (X proposedCursorPosition + d)\<rparr>))
         else
           (let cellDistance = Write (buffer t) (take 1 (drop i stringView)) in
            case narrow_short cellDistance of
              Inl e \<Rightarrow> Inl e
            | Inr d \<Rightarrow>
                Inr (Suc i, proposedCursorPosition\<lparr>X := to_short (X proposedCursorPosition + d)\<rparr>)))"

text \<open>
  The rest of the loop body: cycle the buffer when the proposed row is past its bottom,
  store the cursor, set \<open>skipNewline\<close>, move the viewport down when the cursor left it,
  and notify when a scroll happened.
\<close>

definition CommitCursor :: "COORD \<Rightarrow> Terminal \<Rightarrow> error + Terminal" where
  "CommitCursor proposedCursorPosition t =
     (let cursorPosBefore = cursor (buffer t);
          bufferSize = bufSize (buffer t);
          newRows = Y proposedCursorPosition - vpHeight bufferSize + 1;
          bp = (if newRows > 0 then CycleBuffer (nat newRows) (buffer t, proposedCursorPosition)
                else (buffer t, proposedCursorPosition));
          notifyScroll = (newRows > 0);
          b = (fst bp)\<lparr>cursor := snd bp\<rparr>;
          cursorPosAfter = cursor b;
          t1 = t\<lparr>buffer := b, skipNewline := (Y cursorPosAfter = Y cursorPosBefore + 1)\<rparr>;
          newViewTop = max 0 (Y cursorPosAfter - (vpHeight (mutableViewport t1) - 1));
          moveViewport = (Y cursorPosAfter > BottomInclusive (mutableViewport t1)
                            \<and> newViewTop \<noteq> vpTop (mutableViewport t1))
      in case (if moveViewport then
                 (case narrow_short newViewTop of
                    Inl e \<Rightarrow> Inl e
                  | Inr newTop \<Rightarrow>
                      Inr (t1\<lparr>mutableViewport :=
                                FromDimensions \<lparr>X = 0, Y = newTop\<rparr>
                                               (Dimensions (mutableViewport t1))\<rparr>))
               else Inr t1) of
           Inl e \<Rightarrow> Inl e
         | Inr t2 \<Rightarrow>
             if notifyScroll \<or> moveViewport
             then NotifyScrollEvent (t2\<lparr>redrawAll := Suc (redrawAll t2)\<rparr>)
             else Inr t2)"

text \<open>One round of the outer loop, at index \<open>i < stringView.size()\<close>.\<close>

definition WriteChar ::
  "cell_writer \<Rightarrow> wchar_t list \<Rightarrow> nat \<Rightarrow> Terminal \<Rightarrow> error + (nat \<times> Terminal)" where
  "WriteChar Write stringView i t =
     (if stringView ! i = UNICODE_LINEFEED \<and> skipNewline t
      then Inr (Suc i, t\<lparr>skipNewline := False\<rparr>)
      else
        (case ProposeCursor Write stringView i t of
           Inl e \<Rightarrow> Inl e
         | Inr ip \<Rightarrow>
             (case CommitCursor (snd ip) t of
                Inl e \<Rightarrow> Inl e
              | Inr t' \<Rightarrow> Inr (fst ip, t'))))"

text \<open>
  The outer loop.  It need not end: a surrogate whose write consumes no cell leaves the
  index where it is.  \<open>None\<close> is the run that never returns.
\<close>

partial_function (option) WriteLoop ::
  "cell_writer \<Rightarrow> wchar_t list \<Rightarrow> nat \<Rightarrow> Terminal \<Rightarrow> (error + Terminal) option" where
  "WriteLoop Write stringView i t =
     (if i < length stringView then
        (case WriteChar Write stringView i t of
           Inl e \<Rightarrow> Some (Inl e)
         | Inr it \<Rightarrow> WriteLoop Write stringView (fst it) (snd it))
      else Some (Inr t))"

declare WriteLoop.simps [code]

definition WriteBuffer :: "cell_writer \<Rightarrow> wchar_t list \<Rightarrow> Terminal \<Rightarrow> (error + Terminal) option" where
  "WriteBuffer Write stringView t = WriteLoop Write stringView 0 t"

section \<open>Selection\<close>

definition SetEndSelectionPosition :: "COORD \<Rightarrow> Terminal \<Rightarrow> error + Terminal" where
  "SetEndSelectionPosition position t =
     (case narrow_short (scrollOffset t) of
        Inl e \<Rightarrow> Inl e
      | Inr off \<Rightarrow>
          (case ShortSub (Y position) off of
             Inl e \<Rightarrow> Inl e
           | Inr y \<Rightarrow> Inr (t\<lparr>endSelectionPosition := position\<lparr>Y := y\<rparr>\<rparr>)))"

definition SetSelectionAnchor :: "COORD \<Rightarrow> Terminal \<Rightarrow> error + Terminal" where
  "SetSelectionAnchor position t =
     (case narrow_short (scrollOffset t) of
        Inl e \<Rightarrow> Inl e
      | Inr off \<Rightarrow>
          (case ShortSub (Y position) off of
             Inl e \<Rightarrow> Inl e
           | Inr y \<Rightarrow>
               SetEndSelectionPosition position
                 (t\<lparr>selectionAnchor := position\<lparr>Y := y\<rparr>, renderSelection := True\<rparr>)))"

definition SetBoxSelection :: "bool \<Rightarrow> Terminal \<Rightarrow> Terminal" where
  "SetBoxSelection isEnabled t = t\<lparr>boxSelection := isEnabled\<rparr>"

definition ClearSelection :: "Terminal \<Rightarrow> Terminal" where
  "ClearSelection t =
     t\<lparr>selectionAnchor := \<lparr>X = 0, Y = 0\<rparr>,
       endSelectionPosition := \<lparr>X = 0, Y = 0\<rparr>,
       renderSelection := False\<rparr>"

text \<open>
  The body of the row loop of \<open>_GetSelectionRects\<close>: the rectangle of one row, or the
  exception of \<open>gsl::narrow\<close> or \<open>ShortAdd\<close>.
\<close>

definition SelectionRow :: "Terminal \<Rightarrow> COORD \<Rightarrow> COORD \<Rightarrow> int \<Rightarrow> error + SMALL_RECT" where
  "SelectionRow t higherCoord lowerCoord row =
     (case narrow_short (ViewStartIndex t) of
        Inl e \<Rightarrow> Inl e
      | Inr start \<Rightarrow>
          (case ShortAdd row start of
             Inl e \<Rightarrow> Inl e
           | Inr y \<Rightarrow>
               Inr (if boxSelection t then
                      \<lparr>Left = min (X higherCoord) (X lowerCoord), Top = y,
                       Right = max (X higherCoord) (X lowerCoord), Bottom = y\<rparr>
                    else
                      \<lparr>Left = (if row = Y higherCoord then X higherCoord else 0), Top = y,
                       Right = (if row = Y lowerCoord then X lowerCoord
                                else RightInclusive (bufSize (buffer t))),
                       Bottom = y\<rparr>)))"

text \<open>
  The row loop, \<open>for (auto row = higherCoord.Y; row <= lowerCoord.Y; row++)\<close>.  \<open>row\<close>
  is a \<open>SHORT\<close>, so \<open>row++\<close> wraps at 32767 and the loop need not end; \<open>None\<close> is the run
  that never returns.
\<close>

partial_function (option) SelectionLoop ::
  "Terminal \<Rightarrow> COORD \<Rightarrow> COORD \<Rightarrow> int \<Rightarrow> SMALL_RECT list \<Rightarrow> (error + SMALL_RECT list) option" where
  "SelectionLoop t higherCoord lowerCoord row selectionArea =
     (if row \<le> Y lowerCoord then
        (case SelectionRow t higherCoord lowerCoord row of
           Inl e \<Rightarrow> Some (Inl e)
         | Inr selectionRow \<Rightarrow>
             SelectionLoop t higherCoord lowerCoord (to_short (row + 1))
               (selectionArea @ [selectionRow]))
      else Some (Inr selectionArea))"

declare SelectionLoop.simps [code]

definition GetSelectionRects :: "Terminal \<Rightarrow> (error + SMALL_RECT list) option" where
  "GetSelectionRects t =
     (if \<not> renderSelection t then Some (Inr [])
      else
        let higherCoord = (if Y (selectionAnchor t) \<le> Y (endSelectionPosition t)
                           then selectionAnchor t else endSelectionPosition t);
            lowerCoord = (if Y (selectionAnchor t) > Y (endSelectionPosition t)
                          then selectionAnchor t else endSelectionPosition t)
        in SelectionLoop t higherCoord lowerCoord (Y higherCoord) [])"

section \<open>Concrete inputs\<close>

text \<open>
  Stand-ins for the external operations, used where a property is evaluated on a concrete
  run: a cell write that always consumes one cell, a buffer resize that succeeds and
  takes the new size, and one that fails and leaves the buffer alone.
\<close>

definition WriteOneCell :: cell_writer where
  "WriteOneCell b view = 1"

definition ResizeOk :: buffer_resizer where
  "ResizeOk bufferSize b = (S_OK, b\<lparr>bufSize := FromDimensions \<lparr>X = 0, Y = 0\<rparr> bufferSize\<rparr>)"

definition ResizeFails :: buffer_resizer where
  "ResizeFails bufferSize b = (E_OUTOFMEMORY, b)"


definition small_written :: Terminal where
  "small_written =
     (Create \<lparr>X = 80, Y = 2\<rparr> 10 (Terminal_new False))
       \<lparr>mutableViewport := FromDimensions \<lparr>X = 0, Y = 2\<rparr> \<lparr>X = 80, Y = 2\<rparr>,
        buffer := (TextBuffer_new \<lparr>X = 80, Y = 12\<rparr>)\<lparr>cursor := \<lparr>X = 0, Y = 3\<rparr>\<rparr>,
        skipNewline := True,
        redrawAll := 2\<rparr>"


text \<open>
  An 80 by 2 terminal without scrollback and with a scroll callback, its cursor on the last
  buffer row (as after LF CR), and the same terminal after one more line feed.
\<close>

definition bottom_row :: Terminal where
  "bottom_row =
     (SetScrollPositionChangedCallback True (Create \<lparr>X = 80, Y = 2\<rparr> 0 (Terminal_new False)))
       \<lparr>buffer := (TextBuffer_new \<lparr>X = 80, Y = 2\<rparr>)\<lparr>cursor := \<lparr>X = 0, Y = 1\<rparr>\<rparr>\<rparr>"

definition bottom_rotated :: Terminal where
  "bottom_rotated =
     bottom_row
       \<lparr>buffer := (TextBuffer_new \<lparr>X = 80, Y = 2\<rparr>)
                    \<lparr>cursor := \<lparr>X = 0, Y = 1\<rparr>, rotations := 1\<rparr>,
        redrawAll := 1,
        scrollEvents := [(0, 2, 2)]\<rparr>"

text \<open>
  The text \<open>Hello\<close> CR LF, and the new 80 by 24 terminal without scrollback and with a
  scroll callback after that text.
\<close>

definition hello_crlf :: "wchar_t list" where
  "hello_crlf = [0x48, 0x65, 0x6C, 0x6C, 0x6F, 0x0D, 0x0A]"

definition hello_written :: Terminal where
  "hello_written =
     (SetScrollPositionChangedCallback True (Create \<lparr>X = 80, Y = 24\<rparr> 0 (Terminal_new False)))
       \<lparr>buffer := (TextBuffer_new \<lparr>X = 80, Y = 24\<rparr>)\<lparr>cursor := \<lparr>X = 0, Y = 1\<rparr>\<rparr>,
        skipNewline := True\<rparr>"

text \<open>The new 80 by 24 terminal after one line feed.\<close>

definition after_line_feed :: Terminal where
  "after_line_feed =
     (Create \<lparr>X = 80, Y = 24\<rparr> 0 (Terminal_new False))
       \<lparr>buffer := (TextBuffer_new \<lparr>X = 80, Y = 24\<rparr>)\<lparr>cursor := \<lparr>X = 0, Y = 1\<rparr>\<rparr>,
        skipNewline := True\<rparr>"

text \<open>
  The new 80 by 24 terminal with a stream selection on row 0 that was dragged to the
  left: anchor at column 5, end at column 2.
\<close>

definition backward_selection :: Terminal where
  "backward_selection =
     (Create \<lparr>X = 80, Y = 24\<rparr> 0 (Terminal_new False))
       \<lparr>selectionAnchor := \<lparr>X = 5, Y = 0\<rparr>,
        endSelectionPosition := \<lparr>X = 2, Y = 0\<rparr>,
        renderSelection := True\<rparr>"

text \<open>
  The new 80 by 24 terminal with a stream selection from column 5 of row 0 to column 2 of
  row 2.
\<close>

definition three_row_selection :: Terminal where
  "three_row_selection =
     (Create \<lparr>X = 80, Y = 24\<rparr> 0 (Terminal_new False))
       \<lparr>selectionAnchor := \<lparr>X = 5, Y = 0\<rparr>,
        endSelectionPosition := \<lparr>X = 2, Y = 2\<rparr>,
        renderSelection := True\<rparr>"

text \<open>
  The same 80 by 2 terminal with its cursor on row 3, two rows below the last buffer row
  (as after a resize from 5 rows down to 2), and after one more line feed.
\<close>

definition below_bottom :: Terminal where
  "below_bottom =
     (SetScrollPositionChangedCallback True (Create \<lparr>X = 80, Y = 2\<rparr> 0 (Terminal_new False)))
       \<lparr>buffer := (TextBuffer_new \<lparr>X = 80, Y = 2\<rparr>)\<lparr>cursor := \<lparr>X = 0, Y = 3\<rparr>\<rparr>\<rparr>"

definition below_bottom_rotated :: Terminal where
  "below_bottom_rotated =
     below_bottom
       \<lparr>buffer := (TextBuffer_new \<lparr>X = 80, Y = 2\<rparr>)
                    \<lparr>cursor := \<lparr>X = 0, Y = 1\<rparr>, rotations := 3\<rparr>,
        redrawAll := 1,
        scrollEvents := [(0, 2, 2)]\<rparr>"

section \<open>Evaluation\<close>

text \<open>The defining equations that a run on a concrete input unfolds.\<close>

lemmas model_defs =
  Create_def Terminal_new_def TextBuffer_new_def FromDimensions_def Viewport_Empty_def
  SetScrollPositionChangedCallback_def
  to_short_def WriteBuffer_def WriteChar_def ProposeCursor_def CommitCursor_def
  UNICODE_LINEFEED_def UNICODE_CARRIAGERETURN_def UNICODE_BACKSPACE_def
  narrow_short_def in_short_def ShortAdd_def ShortSub_def
  BottomInclusive_def BottomExclusive_def RightInclusive_def Dimensions_def
  NotifyScrollEvent_def GetVisibleViewport_def VisibleStartIndex_def ViewStartIndex_def
  GetBufferHeight_def GetScrollOffset_def IncrementCircularBuffer_def
  UserResize_def UserScrollViewport_def S_OK_def S_FALSE_def E_OUTOFMEMORY_def FAILED_def
  WriteOneCell_def ResizeOk_def ResizeFails_def Let_def

section \<open>Scrolling\<close>










text \<open>
  C3.  In a state whose live viewport top (the scrollback depth) is not negative,
  \<open>UserScrollViewport viewTop\<close> followed by \<open>GetScrollOffset\<close> yields \<open>viewTop\<close> clamped
  to the range from 0 to the scrollback depth: 0 when \<open>viewTop < 0\<close>, \<open>viewTop\<close> when
  \<open>0 \<le> viewTop \<le> scrollbackDepth\<close>, and the scrollback depth when \<open>viewTop\<close> is larger.
  The scrollback depth itself is not changed by the call.
\<close>

theorem UserScrollViewport_roundtrip:
  assumes "0 \<le> ViewStartIndex t"
  shows "GetScrollOffset (UserScrollViewport viewTop t)
           = (if viewTop < 0 then 0
              else if viewTop \<le> ViewStartIndex t then viewTop
              else ViewStartIndex t)
         \<and> GetScrollOffset (UserScrollViewport viewTop t) = max 0 (min viewTop (ViewStartIndex t))
         \<and> ViewStartIndex (UserScrollViewport viewTop t) = ViewStartIndex t"
  using assms
  by (simp add: GetScrollOffset_def UserScrollViewport_def VisibleStartIndex_def
        ViewStartIndex_def Let_def)

theorem UserScrollViewport_roundtrip_witness:
  "0 \<le> ViewStartIndex small_written
   \<and> GetScrollOffset (UserScrollViewport 1 small_written) = 1
   \<and> GetScrollOffset (UserScrollViewport (- 4) small_written) = 0
   \<and> GetScrollOffset (UserScrollViewport 7 small_written) = 2"
  using UserScrollViewport_roundtrip [of small_written 1]
    UserScrollViewport_roundtrip [of small_written "- 4"]
    UserScrollViewport_roundtrip [of small_written 7]
  by (simp add: small_written_def ViewStartIndex_def FromDimensions_def)

text \<open>
  C10.  \<open>UserScrollViewport\<close> changes the scroll offset and asks the render target for one
  full redraw, and nothing else: no call of the scroll callback is added, and the live
  viewport, the selection anchor and end, the render-selection and box-selection flags,
  the title and every other member are as before.
\<close>

theorem UserScrollViewport_frame:
  "scrollEvents (UserScrollViewport viewTop t) = scrollEvents t
   \<and> redrawAll (UserScrollViewport viewTop t) = Suc (redrawAll t)
   \<and> mutableViewport (UserScrollViewport viewTop t) = mutableViewport t
   \<and> selectionAnchor (UserScrollViewport viewTop t) = selectionAnchor t
   \<and> endSelectionPosition (UserScrollViewport viewTop t) = endSelectionPosition t
   \<and> renderSelection (UserScrollViewport viewTop t) = renderSelection t
   \<and> boxSelection (UserScrollViewport viewTop t) = boxSelection t
   \<and> title (UserScrollViewport viewTop t) = title t
   \<and> buffer (UserScrollViewport viewTop t) = buffer t
   \<and> (UserScrollViewport viewTop t)\<lparr>scrollOffset := scrollOffset t, redrawAll := redrawAll t\<rparr> = t"
  by (simp add: UserScrollViewport_def Let_def)

section \<open>The writer: cycling the buffer\<close>

lemma to_short_idem: "in_short n \<Longrightarrow> to_short n = n"
  by (simp add: to_short_def in_short_def)

lemma to_short_sub: "to_short (to_short a - k) = to_short (a - k)"
proof -
  have e: "to_short a - k + 32768 = (a + 32768) mod 65536 - k"
    by (simp add: to_short_def)
  have "(to_short a - k + 32768) mod 65536 = ((a + 32768) mod 65536 - k) mod 65536"
    by (simp only: e)
  also have "\<dots> = (a + 32768 - k) mod 65536"
    by (rule mod_diff_left_eq)
  also have "a + 32768 - k = a - k + 32768"
    by simp
  finally show ?thesis
    unfolding to_short_def by simp
qed

lemma CycleBuffer_Suc:
  "CycleBuffer (Suc n) (b, p)
     = (b\<lparr>rotations := rotations b + Suc n\<rparr>, p\<lparr>Y := to_short (Y p - int (Suc n))\<rparr>)"
proof (induction n arbitrary: b p)
  case 0
  show ?case by (simp add: IncrementCircularBuffer_def)
next
  case (Suc n)
  have a: "Y p - 1 - int (Suc n) = Y p - int (Suc (Suc n))"
    by simp
  have y: "to_short (to_short (Y p - 1) - int (Suc n)) = to_short (Y p - int (Suc (Suc n)))"
    using to_short_sub [of "Y p - 1" "int (Suc n)"] by (simp only: a)
  have "CycleBuffer (Suc (Suc n)) (b, p)
          = CycleBuffer (Suc n) (IncrementCircularBuffer b, p\<lparr>Y := to_short (Y p - 1)\<rparr>)"
    by simp
  also have "\<dots> = (b\<lparr>rotations := rotations b + Suc (Suc n)\<rparr>,
                     p\<lparr>Y := to_short (to_short (Y p - 1) - int (Suc n))\<rparr>)"
    by (subst Suc.IH) (simp add: IncrementCircularBuffer_def)
  finally show ?case by (simp only: y)
qed

lemma CycleBuffer_pos:
  assumes "0 < k"
  shows "CycleBuffer (nat k) (b, p)
           = (b\<lparr>rotations := rotations b + nat k\<rparr>, p\<lparr>Y := to_short (Y p - k)\<rparr>)"
proof -
  from assms obtain n where n: "nat k = Suc n"
    by (cases "nat k") auto
  with assms have "int (Suc n) = k" by linarith
  with CycleBuffer_Suc [of n b p] n show ?thesis by simp
qed

lemma CommitCursor_overflow:
  assumes h: "in_short (vpHeight (bufSize (buffer t)) - 1)"
    and k: "0 < Y p - vpHeight (bufSize (buffer t)) + 1"
    and c: "CommitCursor p t = Inr t'"
  shows "buffer t' = (buffer t)\<lparr>rotations := rotations (buffer t) + nat (Y p - vpHeight (bufSize (buffer t)) + 1),
                                cursor := p\<lparr>Y := vpHeight (bufSize (buffer t)) - 1\<rparr>\<rparr>
         \<and> redrawAll t' = Suc (redrawAll t)
         \<and> (pfnScrollPositionChanged t \<longrightarrow>
              scrollEvents t' = scrollEvents t @
                [(VisibleStartIndex t', vpHeight (mutableViewport t'), GetBufferHeight t')])
         \<and> (\<not> pfnScrollPositionChanged t \<longrightarrow> scrollEvents t' = scrollEvents t)"
proof -
  note y = to_short_idem [OF h]
  show ?thesis
    using c k
    by (auto simp: CommitCursor_def Let_def CycleBuffer_pos y NotifyScrollEvent_def
          GetVisibleViewport_def VisibleStartIndex_def ViewStartIndex_def GetBufferHeight_def
          FromDimensions_def Dimensions_def narrow_short_def
        split: if_splits sum.splits)
qed


lemma bottom_row_reached:
  "WriteBuffer WriteOneCell [UNICODE_LINEFEED, UNICODE_CARRIAGERETURN]
     (SetScrollPositionChangedCallback True (Create \<lparr>X = 80, Y = 2\<rparr> 0 (Terminal_new False)))
   = Some (Inr bottom_row)"
  by (simp add: model_defs WriteLoop.simps bottom_row_def)

lemma below_bottom_reached:
  "WriteBuffer WriteOneCell
     [UNICODE_LINEFEED, UNICODE_CARRIAGERETURN, UNICODE_LINEFEED, UNICODE_CARRIAGERETURN,
      UNICODE_LINEFEED, UNICODE_CARRIAGERETURN]
     (Create \<lparr>X = 80, Y = 5\<rparr> 0 (Terminal_new False))
   = Some (Inr ((Create \<lparr>X = 80, Y = 5\<rparr> 0 (Terminal_new False))
        \<lparr>buffer := (TextBuffer_new \<lparr>X = 80, Y = 5\<rparr>)\<lparr>cursor := \<lparr>X = 0, Y = 3\<rparr>\<rparr>\<rparr>))
   \<and> UserResize ResizeOk \<lparr>X = 80, Y = 2\<rparr>
        ((Create \<lparr>X = 80, Y = 5\<rparr> 0 (Terminal_new False))
           \<lparr>buffer := (TextBuffer_new \<lparr>X = 80, Y = 5\<rparr>)\<lparr>cursor := \<lparr>X = 0, Y = 3\<rparr>\<rparr>\<rparr>)
     = Inr (S_OK, SetScrollPositionChangedCallback False below_bottom)
   \<and> SetScrollPositionChangedCallback True (SetScrollPositionChangedCallback False below_bottom)
     = below_bottom"
  by (simp add: model_defs WriteLoop.simps below_bottom_def)

text \<open>
  With sane viewport and scroll values the rest of the round, after the proposal, returns
  when the proposed row is past the last buffer row.
\<close>

lemma CommitCursor_overflow_returns:
  assumes h0: "0 < vpHeight (bufSize (buffer t))" and h1: "vpHeight (bufSize (buffer t)) \<le> 32767"
    and k: "0 < Y p - vpHeight (bufSize (buffer t)) + 1"
    and v: "0 \<le> vpHeight (mutableViewport t)"
    and tp: "vpTop (mutableViewport t) \<le> 32767"
    and off: "0 \<le> scrollOffset t"
  shows "\<exists>t'. CommitCursor p t = Inr t'"
proof -
  have h: "in_short (vpHeight (bufSize (buffer t)) - 1)"
    using h0 h1 by (simp add: in_short_def)
  note y = to_short_idem [OF h]
  define newViewTop where
    "newViewTop = max 0 (vpHeight (bufSize (buffer t)) - 1 - (vpHeight (mutableViewport t) - 1))"
  have n: "in_short newViewTop"
    using h0 h1 v unfolding newViewTop_def in_short_def by linarith
  have v1: "in_short (max 0 (newViewTop - scrollOffset t))"
    using n off unfolding in_short_def by linarith
  have v2: "in_short (max 0 (vpTop (mutableViewport t) - scrollOffset t))"
    using tp off unfolding in_short_def by linarith
  show ?thesis
    using k n v1 v2
    by (simp add: CommitCursor_def Let_def CycleBuffer_pos y NotifyScrollEvent_def
          GetVisibleViewport_def VisibleStartIndex_def ViewStartIndex_def
          FromDimensions_def Dimensions_def narrow_short_def newViewTop_def)
qed

text \<open>
  C4.  The buffer height is a positive \<open>SHORT\<close>.  When a character that is processed
  (not a suppressed line feed) proposes a cursor row \<open>k > 0\<close> rows past the last buffer
  row, the round returns, provided the live viewport's height and the scroll offset are
  not negative and its top is a \<open>SHORT\<close>; and whenever the round returns, the buffer has
  been rotated exactly \<open>k\<close> more times, the committed cursor is the proposed one with
  its row lowered by \<open>k\<close>, which is the last buffer row, and the scroll is notified: one
  full redraw is requested and the callback, when one is registered, is called once.
\<close>

theorem WriteChar_overflow_rotates:
  assumes "0 < vpHeight (bufSize (buffer t))" and "vpHeight (bufSize (buffer t)) \<le> 32767"
    and "\<not> (stringView ! i = UNICODE_LINEFEED \<and> skipNewline t)"
    and "ProposeCursor Write stringView i t = Inr (j, proposed)"
    and "0 < k" and "Y proposed = vpHeight (bufSize (buffer t)) - 1 + k"
  shows "(0 \<le> vpHeight (mutableViewport t) \<and> vpTop (mutableViewport t) \<le> 32767
            \<and> 0 \<le> scrollOffset t
          \<longrightarrow> (\<exists>t'. WriteChar Write stringView i t = Inr (j, t')))
       \<and> (\<forall>j' t'. WriteChar Write stringView i t = Inr (j', t') \<longrightarrow>
            j' = j
            \<and> rotations (buffer t') = rotations (buffer t) + nat k
            \<and> cursor (buffer t') = proposed\<lparr>Y := Y proposed - k\<rparr>
            \<and> Y (cursor (buffer t')) = vpHeight (bufSize (buffer t)) - 1
            \<and> redrawAll t' = Suc (redrawAll t)
            \<and> (pfnScrollPositionChanged t \<longrightarrow>
                 scrollEvents t' = scrollEvents t @
                   [(VisibleStartIndex t', vpHeight (mutableViewport t'), GetBufferHeight t')])
            \<and> (\<not> pfnScrollPositionChanged t \<longrightarrow> scrollEvents t' = scrollEvents t))"
proof (intro conjI impI allI)
  have h: "in_short (vpHeight (bufSize (buffer t)) - 1)"
    using assms(1,2) by (simp add: in_short_def)
  have kk: "Y proposed - vpHeight (bufSize (buffer t)) + 1 = k"
    using assms(6) by simp
  have pos: "0 < Y proposed - vpHeight (bufSize (buffer t)) + 1"
    using assms(5) kk by simp
  have w: "WriteChar Write stringView i t =
             (case CommitCursor proposed t of Inl e \<Rightarrow> Inl e | Inr t' \<Rightarrow> Inr (j, t'))"
    using assms(3,4) by (auto simp: WriteChar_def split: sum.splits)
  {
    assume "0 \<le> vpHeight (mutableViewport t) \<and> vpTop (mutableViewport t) \<le> 32767
            \<and> 0 \<le> scrollOffset t"
    then obtain t' where "CommitCursor proposed t = Inr t'"
      using CommitCursor_overflow_returns [OF assms(1,2) pos] by blast
    then show "\<exists>t'. WriteChar Write stringView i t = Inr (j, t')"
      by (simp add: w)
  }
  fix j' t'
  assume r: "WriteChar Write stringView i t = Inr (j', t')"
  then have c: "CommitCursor proposed t = Inr t'" and j: "j' = j"
    by (auto simp: w split: sum.splits)
  show "j' = j" by (rule j)
  from CommitCursor_overflow [OF h pos c] kk assms(6)
  show "rotations (buffer t') = rotations (buffer t) + nat k"
    and "cursor (buffer t') = proposed\<lparr>Y := Y proposed - k\<rparr>"
    and "Y (cursor (buffer t')) = vpHeight (bufSize (buffer t)) - 1"
    and "redrawAll t' = Suc (redrawAll t)"
    by simp_all
  {
    assume "pfnScrollPositionChanged t"
    with CommitCursor_overflow [OF h pos c]
    show "scrollEvents t' = scrollEvents t @
            [(VisibleStartIndex t', vpHeight (mutableViewport t'), GetBufferHeight t')]"
      by simp
  }
  {
    assume "\<not> pfnScrollPositionChanged t"
    with CommitCursor_overflow [OF h pos c]
    show "scrollEvents t' = scrollEvents t"
      by simp
  }
qed

text \<open>
  The theorem at \<open>bottom_row\<close>, where a line feed on the last row of a two-row buffer
  proposes row 2 (\<open>k = 1\<close>), with and without a callback, and at \<open>below_bottom\<close>, where
  it proposes row 4 (\<open>k = 3\<close>).
\<close>

theorem WriteChar_overflow_rotates_witness:
  "0 < vpHeight (bufSize (buffer bottom_row))
   \<and> vpHeight (bufSize (buffer bottom_row)) \<le> 32767
   \<and> \<not> ([UNICODE_LINEFEED] ! 0 = UNICODE_LINEFEED \<and> skipNewline bottom_row)
   \<and> ProposeCursor WriteOneCell [UNICODE_LINEFEED] 0 bottom_row = Inr (1, \<lparr>X = 0, Y = 2\<rparr>)
   \<and> 0 \<le> vpHeight (mutableViewport bottom_row)
   \<and> vpTop (mutableViewport bottom_row) \<le> 32767
   \<and> 0 \<le> scrollOffset bottom_row
   \<and> pfnScrollPositionChanged bottom_row
   \<and> WriteChar WriteOneCell [UNICODE_LINEFEED] 0 bottom_row = Inr (1, bottom_rotated)
   \<and> rotations (buffer bottom_rotated) = rotations (buffer bottom_row) + 1
   \<and> cursor (buffer bottom_rotated) = \<lparr>X = 0, Y = 1\<rparr>
   \<and> scrollEvents bottom_rotated = [(0, 2, 2)]
   \<and> \<not> ([UNICODE_LINEFEED] ! 0 = UNICODE_LINEFEED \<and> skipNewline below_bottom)
   \<and> ProposeCursor WriteOneCell [UNICODE_LINEFEED] 0 below_bottom = Inr (1, \<lparr>X = 0, Y = 4\<rparr>)
   \<and> WriteChar WriteOneCell [UNICODE_LINEFEED] 0 below_bottom = Inr (1, below_bottom_rotated)
   \<and> rotations (buffer below_bottom_rotated) = rotations (buffer below_bottom) + 3
   \<and> cursor (buffer below_bottom_rotated) = \<lparr>X = 0, Y = 1\<rparr>
   \<and> scrollEvents below_bottom_rotated = [(0, 2, 2)]
   \<and> \<not> pfnScrollPositionChanged (SetScrollPositionChangedCallback False bottom_row)
   \<and> WriteChar WriteOneCell [UNICODE_LINEFEED] 0 (SetScrollPositionChangedCallback False bottom_row)
       = Inr (1, SetScrollPositionChangedCallback False (bottom_rotated\<lparr>scrollEvents := []\<rparr>))"
proof -
  have p1: "ProposeCursor WriteOneCell [UNICODE_LINEFEED] 0 bottom_row = Inr (1, \<lparr>X = 0, Y = 2\<rparr>)"
    by (simp add: model_defs bottom_row_def)
  have p2: "ProposeCursor WriteOneCell [UNICODE_LINEFEED] 0 below_bottom = Inr (1, \<lparr>X = 0, Y = 4\<rparr>)"
    by (simp add: model_defs below_bottom_def)
  have p3: "ProposeCursor WriteOneCell [UNICODE_LINEFEED] 0
              (SetScrollPositionChangedCallback False bottom_row) = Inr (1, \<lparr>X = 0, Y = 2\<rparr>)"
    by (simp add: model_defs bottom_row_def)
  have w1: "WriteChar WriteOneCell [UNICODE_LINEFEED] 0 bottom_row = Inr (1, bottom_rotated)"
    by (simp add: model_defs bottom_row_def bottom_rotated_def)
  have w2: "WriteChar WriteOneCell [UNICODE_LINEFEED] 0 below_bottom
              = Inr (1, below_bottom_rotated)"
    by (simp add: model_defs below_bottom_def below_bottom_rotated_def
          CycleBuffer_pos [of 3, simplified])
  have w3: "WriteChar WriteOneCell [UNICODE_LINEFEED] 0
              (SetScrollPositionChangedCallback False bottom_row)
            = Inr (1, SetScrollPositionChangedCallback False (bottom_rotated\<lparr>scrollEvents := []\<rparr>))"
    by (simp add: model_defs bottom_row_def bottom_rotated_def)
  have b1: "0 < vpHeight (bufSize (buffer bottom_row))"
    "vpHeight (bufSize (buffer bottom_row)) \<le> 32767"
    "\<not> ([UNICODE_LINEFEED] ! 0 = UNICODE_LINEFEED \<and> skipNewline bottom_row)"
    "0 \<le> vpHeight (mutableViewport bottom_row) \<and> vpTop (mutableViewport bottom_row) \<le> 32767
       \<and> 0 \<le> scrollOffset bottom_row"
    "pfnScrollPositionChanged bottom_row"
    by (simp_all add: model_defs bottom_row_def)
  have b2: "0 < vpHeight (bufSize (buffer below_bottom))"
    "vpHeight (bufSize (buffer below_bottom)) \<le> 32767"
    "\<not> ([UNICODE_LINEFEED] ! 0 = UNICODE_LINEFEED \<and> skipNewline below_bottom)"
    by (simp_all add: model_defs below_bottom_def)
  have b3: "0 < vpHeight (bufSize (buffer (SetScrollPositionChangedCallback False bottom_row)))"
    "vpHeight (bufSize (buffer (SetScrollPositionChangedCallback False bottom_row))) \<le> 32767"
    "\<not> ([UNICODE_LINEFEED] ! 0 = UNICODE_LINEFEED
        \<and> skipNewline (SetScrollPositionChangedCallback False bottom_row))"
    "\<not> pfnScrollPositionChanged (SetScrollPositionChangedCallback False bottom_row)"
    by (simp_all add: model_defs bottom_row_def)
  have y1: "Y \<lparr>X = 0, Y = 2\<rparr> = vpHeight (bufSize (buffer bottom_row)) - 1 + 1"
    by (simp add: model_defs bottom_row_def)
  have y2: "Y \<lparr>X = 0, Y = 4\<rparr> = vpHeight (bufSize (buffer below_bottom)) - 1 + 3"
    by (simp add: model_defs below_bottom_def)
  have y3: "Y \<lparr>X = 0, Y = 2\<rparr>
              = vpHeight (bufSize (buffer (SetScrollPositionChangedCallback False bottom_row))) - 1 + 1"
    by (simp add: model_defs bottom_row_def)
  note t1 = WriteChar_overflow_rotates [OF b1(1,2,3) p1 _ y1]
  note t2 = WriteChar_overflow_rotates [OF b2(1,2,3) p2 _ y2]
  note t3 = WriteChar_overflow_rotates [OF b3(1,2,3) p3 _ y3]
  from t1 [THEN conjunct1] b1(4)
  have e1: "\<exists>t'. WriteChar WriteOneCell [UNICODE_LINEFEED] 0 bottom_row = Inr (1, t')"
    by simp
  from t1 [THEN conjunct2, rule_format, OF _ w1]
  have r1: "rotations (buffer bottom_rotated) = rotations (buffer bottom_row) + 1"
    by simp
  from t2 [THEN conjunct2, rule_format, OF _ w2]
  have r2: "rotations (buffer below_bottom_rotated) = rotations (buffer below_bottom) + 3"
    by simp
  from t3 [THEN conjunct2, rule_format, OF _ w3] b3(4)
  have r3: "scrollEvents (SetScrollPositionChangedCallback False (bottom_rotated\<lparr>scrollEvents := []\<rparr>))
              = scrollEvents (SetScrollPositionChangedCallback False bottom_row)"
    by simp
  have c1: "cursor (buffer bottom_rotated) = \<lparr>X = 0, Y = 1\<rparr>"
    "scrollEvents bottom_rotated = [(0, 2, 2)]"
    by (simp_all add: model_defs bottom_rotated_def)
  have c2: "cursor (buffer below_bottom_rotated) = \<lparr>X = 0, Y = 1\<rparr>"
    "scrollEvents below_bottom_rotated = [(0, 2, 2)]"
    by (simp_all add: model_defs below_bottom_rotated_def)
  from e1 r3 show ?thesis
    using b1 b2 b3 p1 p2 w1 w2 w3 r1 r2 c1 c2 by blast
qed

section \<open>The writer: line feeds\<close>

lemma CommitCursor_skipNewline:
  assumes "CommitCursor p t = Inr t'"
  shows "skipNewline t' = (Y (cursor (buffer t')) = Y (cursor (buffer t)) + 1)"
  using assms
  by (auto simp: CommitCursor_def Let_def NotifyScrollEvent_def
      split: if_splits sum.splits)

lemma CommitCursor_inside:
  assumes "Y p < vpHeight (bufSize (buffer t))" and "CommitCursor p t = Inr t'"
  shows "cursor (buffer t') = p"
  using assms
  by (auto simp: CommitCursor_def Let_def NotifyScrollEvent_def
      split: if_splits sum.splits)

lemma ProposeCursor_LINEFEED:
  assumes "stringView ! i = UNICODE_LINEFEED"
  shows "ProposeCursor Write stringView i t
           = Inr (Suc i, (cursor (buffer t))\<lparr>Y := to_short (Y (cursor (buffer t)) + 1)\<rparr>)"
  using assms by (simp add: ProposeCursor_def Let_def)

lemma ProposeCursor_CARRIAGERETURN:
  assumes "stringView ! i = UNICODE_CARRIAGERETURN"
  shows "ProposeCursor Write stringView i t = Inr (Suc i, (cursor (buffer t))\<lparr>X := 0\<rparr>)"
  using assms
  by (simp add: ProposeCursor_def Let_def UNICODE_CARRIAGERETURN_def UNICODE_LINEFEED_def)

text \<open>
  What one round does with the flag.  A line feed met with the flag set changes nothing
  but the flag, which it clears.  Every other round that returns sets the flag to whether
  it left the cursor row one greater than before: a line feed with the cursor above the
  last buffer row moves the cursor down by one row and sets the flag; on the last buffer
  row it rotates the buffer once, leaves the cursor where it is and clears the flag; a
  carriage return with the cursor inside the buffer only sets the column to 0 and clears
  the flag.
\<close>

lemma skipNewline_rounds:
  "(stringView ! i = UNICODE_LINEFEED \<and> skipNewline t \<longrightarrow>
      WriteChar Write stringView i t = Inr (Suc i, t\<lparr>skipNewline := False\<rparr>))
   \<and> (stringView ! i = UNICODE_LINEFEED \<and> \<not> skipNewline t
        \<and> 0 \<le> Y (cursor (buffer t))
        \<and> Y (cursor (buffer t)) + 1 < vpHeight (bufSize (buffer t))
        \<and> vpHeight (bufSize (buffer t)) \<le> 32767
        \<and> WriteChar Write stringView i t = Inr (j, t') \<longrightarrow>
      cursor (buffer t') = (cursor (buffer t))\<lparr>Y := Y (cursor (buffer t)) + 1\<rparr>
      \<and> skipNewline t')
   \<and> (stringView ! i = UNICODE_LINEFEED \<and> \<not> skipNewline t
        \<and> 0 \<le> Y (cursor (buffer t))
        \<and> Y (cursor (buffer t)) + 1 = vpHeight (bufSize (buffer t))
        \<and> vpHeight (bufSize (buffer t)) \<le> 32767
        \<and> WriteChar Write stringView i t = Inr (j, t') \<longrightarrow>
      cursor (buffer t') = cursor (buffer t)
      \<and> rotations (buffer t') = Suc (rotations (buffer t))
      \<and> \<not> skipNewline t')
   \<and> (\<not> (stringView ! i = UNICODE_LINEFEED \<and> skipNewline t)
        \<and> WriteChar Write stringView i t = Inr (j, t') \<longrightarrow>
      skipNewline t' = (Y (cursor (buffer t')) = Y (cursor (buffer t)) + 1))
   \<and> (stringView ! i = UNICODE_CARRIAGERETURN
        \<and> Y (cursor (buffer t)) < vpHeight (bufSize (buffer t))
        \<and> WriteChar Write stringView i t = Inr (j, t') \<longrightarrow>
      cursor (buffer t') = (cursor (buffer t))\<lparr>X := 0\<rparr> \<and> \<not> skipNewline t')"
proof (intro conjI impI)
  assume "stringView ! i = UNICODE_LINEFEED \<and> skipNewline t"
  then show "WriteChar Write stringView i t = Inr (Suc i, t\<lparr>skipNewline := False\<rparr>)"
    by (simp add: WriteChar_def)
next
  assume a: "stringView ! i = UNICODE_LINEFEED \<and> \<not> skipNewline t
        \<and> 0 \<le> Y (cursor (buffer t))
        \<and> Y (cursor (buffer t)) + 1 < vpHeight (bufSize (buffer t))
        \<and> vpHeight (bufSize (buffer t)) \<le> 32767
        \<and> WriteChar Write stringView i t = Inr (j, t')"
  then have y: "to_short (Y (cursor (buffer t)) + 1) = Y (cursor (buffer t)) + 1"
    by (intro to_short_idem) (simp add: in_short_def)
  from a have c: "CommitCursor ((cursor (buffer t))\<lparr>Y := Y (cursor (buffer t)) + 1\<rparr>) t = Inr t'"
    by (auto simp: WriteChar_def ProposeCursor_LINEFEED y split: sum.splits)
  from a CommitCursor_inside [OF _ c]
  show p: "cursor (buffer t') = (cursor (buffer t))\<lparr>Y := Y (cursor (buffer t)) + 1\<rparr>"
    by simp
  from CommitCursor_skipNewline [OF c] p show "skipNewline t'"
    by simp
next
  assume a: "stringView ! i = UNICODE_LINEFEED \<and> \<not> skipNewline t
        \<and> 0 \<le> Y (cursor (buffer t))
        \<and> Y (cursor (buffer t)) + 1 = vpHeight (bufSize (buffer t))
        \<and> vpHeight (bufSize (buffer t)) \<le> 32767
        \<and> WriteChar Write stringView i t = Inr (j, t')"
  then have y: "to_short (vpHeight (bufSize (buffer t))) = vpHeight (bufSize (buffer t))"
    by (intro to_short_idem) (simp add: in_short_def)
  from a have c: "CommitCursor ((cursor (buffer t))\<lparr>Y := vpHeight (bufSize (buffer t))\<rparr>) t = Inr t'"
    by (auto simp: WriteChar_def ProposeCursor_LINEFEED y split: sum.splits)
  have h: "in_short (vpHeight (bufSize (buffer t)) - 1)"
    using a by (simp add: in_short_def)
  have k: "0 < Y ((cursor (buffer t))\<lparr>Y := vpHeight (bufSize (buffer t))\<rparr>)
                 - vpHeight (bufSize (buffer t)) + 1"
    by simp
  have r: "vpHeight (bufSize (buffer t)) - 1 = Y (cursor (buffer t))"
    using a by simp
  from CommitCursor_overflow [OF h k c]
  show p: "cursor (buffer t') = cursor (buffer t)"
    and "rotations (buffer t') = Suc (rotations (buffer t))"
    by (simp_all add: r)
  from CommitCursor_skipNewline [OF c] p show "\<not> skipNewline t'"
    by simp
next
  assume a: "\<not> (stringView ! i = UNICODE_LINEFEED \<and> skipNewline t)
        \<and> WriteChar Write stringView i t = Inr (j, t')"
  then obtain p where "CommitCursor p t = Inr t'"
    by (auto simp: WriteChar_def split: sum.splits)
  then show "skipNewline t' = (Y (cursor (buffer t')) = Y (cursor (buffer t)) + 1)"
    by (rule CommitCursor_skipNewline)
next
  assume a: "stringView ! i = UNICODE_CARRIAGERETURN
        \<and> Y (cursor (buffer t)) < vpHeight (bufSize (buffer t))
        \<and> WriteChar Write stringView i t = Inr (j, t')"
  then have c: "CommitCursor ((cursor (buffer t))\<lparr>X := 0\<rparr>) t = Inr t'"
    by (auto simp: WriteChar_def ProposeCursor_CARRIAGERETURN
          UNICODE_CARRIAGERETURN_def UNICODE_LINEFEED_def split: sum.splits)
  from a CommitCursor_inside [OF _ c]
  show p: "cursor (buffer t') = (cursor (buffer t))\<lparr>X := 0\<rparr>"
    by simp
  from CommitCursor_skipNewline [OF c] p show "\<not> skipNewline t'"
    by simp
qed

text \<open>
  C5 evaluated on LF LF, written to the new 80 by 24 terminal, the first of its process.
  The first line feed moves the cursor from row 0 to row 1 and sets the flag.  The second
  line feed is swallowed: the run ends with the cursor on row 1.  The character before
  the second line feed is a line feed, not a carriage return, so C5 has it advance the
  cursor to row 2.
\<close>

theorem second_LINEFEED_swallowed:
  "WriteBuffer WriteOneCell [UNICODE_LINEFEED, UNICODE_LINEFEED]
     (Create \<lparr>X = 80, Y = 24\<rparr> 0 (Terminal_new False))
     = Some (Inr (after_line_feed\<lparr>skipNewline := False\<rparr>))
   \<and> cursor (buffer (Create \<lparr>X = 80, Y = 24\<rparr> 0 (Terminal_new False))) = \<lparr>X = 0, Y = 0\<rparr>
   \<and> cursor (buffer (after_line_feed\<lparr>skipNewline := False\<rparr>)) = \<lparr>X = 0, Y = 1\<rparr>
   \<and> WriteChar WriteOneCell [UNICODE_LINEFEED, UNICODE_LINEFEED] 0
        (Create \<lparr>X = 80, Y = 24\<rparr> 0 (Terminal_new False))
     = Inr (1, after_line_feed)
   \<and> WriteChar WriteOneCell [UNICODE_LINEFEED, UNICODE_LINEFEED] 1 after_line_feed
     = Inr (2, after_line_feed\<lparr>skipNewline := False\<rparr>)
   \<and> [UNICODE_LINEFEED, UNICODE_LINEFEED] ! 0 \<noteq> UNICODE_CARRIAGERETURN"
  by (simp add: model_defs WriteLoop.simps after_line_feed_def)

text \<open>
  C8 evaluated.  A backspace with the cursor at column 0 of row 0 of the new 80 by 24
  terminal commits the cursor at column 79 of row \<open>- 1\<close>; two one-cell characters on a
  new terminal of 2 columns commit the cursor at column 2.
\<close>

theorem cursor_leaves_buffer:
  "WriteBuffer WriteOneCell [UNICODE_BACKSPACE] (Create \<lparr>X = 80, Y = 24\<rparr> 0 (Terminal_new False))
     = Some (Inr ((Create \<lparr>X = 80, Y = 24\<rparr> 0 (Terminal_new False))
          \<lparr>buffer := (TextBuffer_new \<lparr>X = 80, Y = 24\<rparr>)\<lparr>cursor := \<lparr>X = 79, Y = - 1\<rparr>\<rparr>\<rparr>))
   \<and> WriteBuffer WriteOneCell [0x41, 0x42] (Create \<lparr>X = 2, Y = 2\<rparr> 0 (Terminal_new False))
     = Some (Inr ((Create \<lparr>X = 2, Y = 2\<rparr> 0 (Terminal_new False))
          \<lparr>buffer := (TextBuffer_new \<lparr>X = 2, Y = 2\<rparr>)\<lparr>cursor := \<lparr>X = 2, Y = 0\<rparr>\<rparr>\<rparr>))"
  by (simp add: model_defs WriteLoop.simps)

section \<open>The writer: the \<open>Hello\<close> scenario\<close>

text \<open>
  C9, as the code has it.  On the new 80 by 24 terminal without scrollback, whether or not
  a scroll callback is registered, whatever value the static flag has at that moment, and
  with a cell write that consumes one cell for each single character, writing \<open>Hello\<close> CR LF returns with the cursor at row 1, column 0,
  the flag \<open>skipNewline\<close> set and nothing else changed: the scroll callback is not called
  and no redraw is requested.
\<close>

theorem hello_scenario:
  assumes "\<forall>b c. Write b [c] = 1"
  shows "WriteBuffer Write hello_crlf
           (SetScrollPositionChangedCallback pfn
              (Create \<lparr>X = 80, Y = 24\<rparr> 0 (Terminal_new staticSkipNewline)))
         = Some (Inr ((SetScrollPositionChangedCallback pfn
                         (Create \<lparr>X = 80, Y = 24\<rparr> 0 (Terminal_new staticSkipNewline)))
              \<lparr>buffer := (TextBuffer_new \<lparr>X = 80, Y = 24\<rparr>)\<lparr>cursor := \<lparr>X = 0, Y = 1\<rparr>\<rparr>,
               skipNewline := True\<rparr>))"
  using assms
  by (simp add: model_defs WriteLoop.simps hello_crlf_def)

theorem hello_scenario_witness:
  "(\<forall>b c. WriteOneCell b [c] = 1)
   \<and> WriteBuffer WriteOneCell hello_crlf
         (SetScrollPositionChangedCallback True (Create \<lparr>X = 80, Y = 24\<rparr> 0 (Terminal_new False)))
       = Some (Inr hello_written)"
  using hello_scenario [of WriteOneCell True False]
  by (simp add: WriteOneCell_def hello_written_def)

text \<open>
  C9 as stated fails: after \<open>Hello\<close> CR LF the registered scroll callback has not been
  called at all.
\<close>

theorem hello_notification_counterexample:
  "WriteBuffer WriteOneCell hello_crlf
     (SetScrollPositionChangedCallback True (Create \<lparr>X = 80, Y = 24\<rparr> 0 (Terminal_new False)))
     = Some (Inr hello_written)
   \<and> cursor (buffer hello_written) = \<lparr>X = 0, Y = 1\<rparr>
   \<and> scrollEvents hello_written = []
   \<and> length (scrollEvents hello_written) \<noteq> 1"
  by (simp add: model_defs WriteLoop.simps hello_crlf_def hello_written_def)

section \<open>Resize\<close>

text \<open>
  C1 evaluated.  On \<open>small_written\<close> (80 by 2, live viewport top 2) a resize to 3 rows
  whose buffer resize fails returns the failure code, and the live viewport is already 80
  by 3 at top 0.  The same request again then returns \<open>S_FALSE\<close>.
\<close>

theorem UserResize_failure_keeps_new_viewport:
  "UserResize ResizeFails \<lparr>X = 80, Y = 3\<rparr> small_written
     = Inr (E_OUTOFMEMORY,
            small_written\<lparr>mutableViewport := FromDimensions \<lparr>X = 0, Y = 0\<rparr> \<lparr>X = 80, Y = 3\<rparr>\<rparr>)
   \<and> FAILED E_OUTOFMEMORY
   \<and> Dimensions (mutableViewport small_written) = \<lparr>X = 80, Y = 2\<rparr>
   \<and> vpTop (mutableViewport small_written) = 2
   \<and> UserResize ResizeFails \<lparr>X = 80, Y = 3\<rparr>
        (small_written\<lparr>mutableViewport := FromDimensions \<lparr>X = 0, Y = 0\<rparr> \<lparr>X = 80, Y = 3\<rparr>\<rparr>)
     = Inr (S_FALSE,
            small_written\<lparr>mutableViewport := FromDimensions \<lparr>X = 0, Y = 0\<rparr> \<lparr>X = 80, Y = 3\<rparr>\<rparr>)"
  by (simp add: model_defs small_written_def)

section \<open>Selection\<close>

lemmas sel_defs = SetSelectionAnchor_def SetEndSelectionPosition_def GetSelectionRects_def
  SelectionLoop.simps SelectionRow_def

text \<open>
  C7 evaluated.  Anchor at column 5 and end at column 2 of row 0, stream selection: the
  single rectangle has left 5 and right 2.
\<close>

theorem stream_selection_single_row_backward:
  "SetSelectionAnchor \<lparr>X = 5, Y = 0\<rparr> (Create \<lparr>X = 80, Y = 24\<rparr> 0 (Terminal_new False))
     = Inr (backward_selection\<lparr>endSelectionPosition := \<lparr>X = 5, Y = 0\<rparr>\<rparr>)
   \<and> SetEndSelectionPosition \<lparr>X = 2, Y = 0\<rparr>
        (backward_selection\<lparr>endSelectionPosition := \<lparr>X = 5, Y = 0\<rparr>\<rparr>)
     = Inr backward_selection
   \<and> \<not> boxSelection backward_selection
   \<and> GetSelectionRects backward_selection
     = Some (Inr [\<lparr>Left = 5, Top = 0, Right = 2, Bottom = 0\<rparr>])"
  by (simp add: model_defs sel_defs backward_selection_def)

text \<open>
  The row loop from \<open>row\<close> on, when every row up to the lower coordinate yields a
  rectangle and \<open>row++\<close> cannot wrap: it returns, with one rectangle for each row.
\<close>

lemma SelectionLoop_rows:
  assumes "Y lowerCoord < 32767"
    and "- 32768 \<le> row"
    and "\<forall>r. row \<le> r \<and> r \<le> Y lowerCoord \<longrightarrow> (\<exists>rect. SelectionRow t higherCoord lowerCoord r = Inr rect)"
  shows "\<exists>rs. SelectionLoop t higherCoord lowerCoord row acc = Some (Inr (acc @ rs))
              \<and> length rs = nat (Y lowerCoord + 1 - row)
              \<and> (\<forall>n < length rs. SelectionRow t higherCoord lowerCoord (row + int n) = Inr (rs ! n))"
  using assms
proof (induction "nat (Y lowerCoord + 1 - row)" arbitrary: row acc)
  case 0
  then have "\<not> row \<le> Y lowerCoord" by simp
  then have "SelectionLoop t higherCoord lowerCoord row acc = Some (Inr acc)"
    by (subst SelectionLoop.simps) simp
  with 0 show ?case by simp
next
  case (Suc m)
  then have le: "row \<le> Y lowerCoord" by linarith
  with Suc.prems obtain r0 where r0: "SelectionRow t higherCoord lowerCoord row = Inr r0"
    by blast
  have w: "to_short (row + 1) = row + 1"
    using le Suc.prems(1,2) by (intro to_short_idem) (simp add: in_short_def)
  have m: "m = nat (Y lowerCoord + 1 - (row + 1))"
    using Suc.hyps(2) by linarith
  have rows: "\<forall>r. row + 1 \<le> r \<and> r \<le> Y lowerCoord \<longrightarrow>
                (\<exists>rect. SelectionRow t higherCoord lowerCoord r = Inr rect)"
    using Suc.prems(3) by auto
  from Suc.hyps(1) [OF m Suc.prems(1) _ rows, of "acc @ [r0]"] Suc.prems(2)
  obtain rs where rs: "SelectionLoop t higherCoord lowerCoord (row + 1) (acc @ [r0])
                         = Some (Inr ((acc @ [r0]) @ rs))"
    and len: "length rs = nat (Y lowerCoord + 1 - (row + 1))"
    and nth: "\<forall>n < length rs. SelectionRow t higherCoord lowerCoord (row + 1 + int n) = Inr (rs ! n)"
    by auto
  have "SelectionLoop t higherCoord lowerCoord row acc
          = SelectionLoop t higherCoord lowerCoord (row + 1) (acc @ [r0])"
    using le r0 w by (subst SelectionLoop.simps) simp
  with rs have 1: "SelectionLoop t higherCoord lowerCoord row acc = Some (Inr (acc @ (r0 # rs)))"
    by simp
  have 2: "length (r0 # rs) = nat (Y lowerCoord + 1 - row)"
    using len le by simp
  have 3: "\<forall>n < length (r0 # rs).
             SelectionRow t higherCoord lowerCoord (row + int n) = Inr ((r0 # rs) ! n)"
  proof (intro allI impI)
    fix n assume n: "n < length (r0 # rs)"
    show "SelectionRow t higherCoord lowerCoord (row + int n) = Inr ((r0 # rs) ! n)"
    proof (cases n)
      case 0
      with r0 show ?thesis by simp
    next
      case (Suc k)
      with n have "k < length rs" by simp
      with nth have "SelectionRow t higherCoord lowerCoord (row + 1 + int k) = Inr (rs ! k)"
        by blast
      moreover have "row + 1 + int k = row + int n" using Suc by simp
      ultimately show ?thesis using Suc by simp
    qed
  qed
  from 1 2 3 show ?case by blast
qed


lemma SelectionRow_returns:
  assumes "in_short (ViewStartIndex t)" and "in_short (row + ViewStartIndex t)"
  shows "\<exists>rect. SelectionRow t higherCoord lowerCoord row = Inr rect"
  using assms by (simp add: SelectionRow_def narrow_short_def ShortAdd_def)

lemma SelectionRow_Top_Bottom:
  assumes "SelectionRow t higherCoord lowerCoord row = Inr rect"
  shows "Top rect = row + ViewStartIndex t \<and> Bottom rect = row + ViewStartIndex t"
  using assms
  by (auto simp: SelectionRow_def narrow_short_def ShortAdd_def split: if_splits)

lemma three_row_selection_reached:
  "SetSelectionAnchor \<lparr>X = 5, Y = 0\<rparr> (Create \<lparr>X = 80, Y = 24\<rparr> 0 (Terminal_new False))
     = Inr (three_row_selection\<lparr>endSelectionPosition := \<lparr>X = 5, Y = 0\<rparr>\<rparr>)
   \<and> SetEndSelectionPosition \<lparr>X = 2, Y = 2\<rparr>
        (three_row_selection\<lparr>endSelectionPosition := \<lparr>X = 5, Y = 0\<rparr>\<rparr>)
     = Inr three_row_selection"
  by (simp add: model_defs sel_defs three_row_selection_def)

text \<open>
  C6.  \<open>_GetSelectionRects\<close> returns the empty sequence when \<open>renderSelection\<close> is false,
  in particular after \<open>ClearSelection\<close>.  When \<open>renderSelection\<close> is true and the row
  arithmetic stays inside the \<open>SHORT\<close> range (the larger stored row is below 32767, and
  the scrollback depth and both stored rows shifted by it are \<open>SHORT\<close> values), it
  returns exactly \<open>|anchorRow - endRow| + 1\<close> rectangles, the one at position \<open>n\<close> with
  top and bottom equal to the smaller stored row plus \<open>n\<close> plus the scrollback depth.
\<close>

theorem GetSelectionRects_rows:
  "(\<not> renderSelection t \<longrightarrow> GetSelectionRects t = Some (Inr []))
   \<and> GetSelectionRects (ClearSelection t) = Some (Inr [])
   \<and> (renderSelection t
        \<and> - 32768 \<le> min (Y (selectionAnchor t)) (Y (endSelectionPosition t))
        \<and> max (Y (selectionAnchor t)) (Y (endSelectionPosition t)) < 32767
        \<and> in_short (ViewStartIndex t)
        \<and> in_short (min (Y (selectionAnchor t)) (Y (endSelectionPosition t)) + ViewStartIndex t)
        \<and> in_short (max (Y (selectionAnchor t)) (Y (endSelectionPosition t)) + ViewStartIndex t)
       \<longrightarrow>
       (\<exists>rects. GetSelectionRects t = Some (Inr rects)
          \<and> int (length rects) = \<bar>Y (selectionAnchor t) - Y (endSelectionPosition t)\<bar> + 1
          \<and> (\<forall>n < length rects.
                Top (rects ! n)
                  = min (Y (selectionAnchor t)) (Y (endSelectionPosition t)) + int n + ViewStartIndex t
                \<and> Bottom (rects ! n)
                  = min (Y (selectionAnchor t)) (Y (endSelectionPosition t)) + int n + ViewStartIndex t)))"
proof (intro conjI impI)
  assume "\<not> renderSelection t"
  then show "GetSelectionRects t = Some (Inr [])"
    by (simp add: GetSelectionRects_def)
next
  show "GetSelectionRects (ClearSelection t) = Some (Inr [])"
    by (simp add: GetSelectionRects_def ClearSelection_def)
next
  define lo where "lo = min (Y (selectionAnchor t)) (Y (endSelectionPosition t))"
  define hi where "hi = max (Y (selectionAnchor t)) (Y (endSelectionPosition t))"
  define higherCoord where "higherCoord =
    (if Y (selectionAnchor t) \<le> Y (endSelectionPosition t)
     then selectionAnchor t else endSelectionPosition t)"
  define lowerCoord where "lowerCoord =
    (if Y (selectionAnchor t) > Y (endSelectionPosition t)
     then selectionAnchor t else endSelectionPosition t)"
  assume a: "renderSelection t
        \<and> - 32768 \<le> min (Y (selectionAnchor t)) (Y (endSelectionPosition t))
        \<and> max (Y (selectionAnchor t)) (Y (endSelectionPosition t)) < 32767
        \<and> in_short (ViewStartIndex t)
        \<and> in_short (min (Y (selectionAnchor t)) (Y (endSelectionPosition t)) + ViewStartIndex t)
        \<and> in_short (max (Y (selectionAnchor t)) (Y (endSelectionPosition t)) + ViewStartIndex t)"
  have yh: "Y higherCoord = lo" and yl: "Y lowerCoord = hi"
    by (auto simp: higherCoord_def lowerCoord_def lo_def hi_def)
  have g: "GetSelectionRects t = SelectionLoop t higherCoord lowerCoord lo []"
    using a yh by (simp add: GetSelectionRects_def Let_def higherCoord_def lowerCoord_def)
  have rows: "\<forall>r. lo \<le> r \<and> r \<le> Y lowerCoord \<longrightarrow>
                (\<exists>rect. SelectionRow t higherCoord lowerCoord r = Inr rect)"
  proof (intro allI impI)
    fix r assume "lo \<le> r \<and> r \<le> Y lowerCoord"
    with a yl have "in_short (r + ViewStartIndex t)"
      by (simp add: in_short_def lo_def hi_def)
    with a show "\<exists>rect. SelectionRow t higherCoord lowerCoord r = Inr rect"
      by (simp add: SelectionRow_returns)
  qed
  from a have "Y lowerCoord < 32767" and "- 32768 \<le> lo"
    by (simp_all add: yl hi_def lo_def)
  from SelectionLoop_rows [OF this rows, of "[]"] g
  obtain rs where 1: "GetSelectionRects t = Some (Inr rs)"
    and 2: "length rs = nat (Y lowerCoord + 1 - lo)"
    and 3: "\<forall>n < length rs. SelectionRow t higherCoord lowerCoord (lo + int n) = Inr (rs ! n)"
    by auto
  have "int (length rs) = \<bar>Y (selectionAnchor t) - Y (endSelectionPosition t)\<bar> + 1"
    using 2 unfolding yl hi_def lo_def by linarith
  moreover have "\<forall>n < length rs.
        Top (rs ! n) = lo + int n + ViewStartIndex t
        \<and> Bottom (rs ! n) = lo + int n + ViewStartIndex t"
    using 3 SelectionRow_Top_Bottom by blast
  ultimately show "\<exists>rects. GetSelectionRects t = Some (Inr rects)
          \<and> int (length rects) = \<bar>Y (selectionAnchor t) - Y (endSelectionPosition t)\<bar> + 1
          \<and> (\<forall>n < length rects.
                Top (rects ! n)
                  = min (Y (selectionAnchor t)) (Y (endSelectionPosition t)) + int n + ViewStartIndex t
                \<and> Bottom (rects ! n)
                  = min (Y (selectionAnchor t)) (Y (endSelectionPosition t)) + int n + ViewStartIndex t)"
    using 1 unfolding lo_def by blast
qed

text \<open>
  The theorem on the new terminal, which has no selection, and on
  \<open>three_row_selection\<close>, where the three rectangles are rows 0, 1 and 2.
\<close>

theorem GetSelectionRects_rows_witness:
  "\<not> renderSelection (Create \<lparr>X = 80, Y = 24\<rparr> 0 (Terminal_new False))
   \<and> GetSelectionRects (Create \<lparr>X = 80, Y = 24\<rparr> 0 (Terminal_new False)) = Some (Inr [])
   \<and> renderSelection three_row_selection
   \<and> - 32768 \<le> min (Y (selectionAnchor three_row_selection))
                     (Y (endSelectionPosition three_row_selection))
   \<and> max (Y (selectionAnchor three_row_selection))
          (Y (endSelectionPosition three_row_selection)) < 32767
   \<and> in_short (ViewStartIndex three_row_selection)
   \<and> in_short (min (Y (selectionAnchor three_row_selection))
                    (Y (endSelectionPosition three_row_selection))
                + ViewStartIndex three_row_selection)
   \<and> in_short (max (Y (selectionAnchor three_row_selection))
                    (Y (endSelectionPosition three_row_selection))
                + ViewStartIndex three_row_selection)
   \<and> GetSelectionRects three_row_selection
       = Some (Inr [\<lparr>Left = 5, Top = 0, Right = 79, Bottom = 0\<rparr>,
                    \<lparr>Left = 0, Top = 1, Right = 79, Bottom = 1\<rparr>,
                    \<lparr>Left = 0, Top = 2, Right = 2, Bottom = 2\<rparr>])
   \<and> GetSelectionRects (ClearSelection three_row_selection) = Some (Inr [])"
  using GetSelectionRects_rows [of "Create \<lparr>X = 80, Y = 24\<rparr> 0 (Terminal_new False)"]
    GetSelectionRects_rows [of three_row_selection]
  by (simp add: model_defs sel_defs three_row_selection_def ClearSelection_def)

end
